theory Spec2Isabelle
  imports Complex_Main "HOL-Library.AList"
begin

section \<open>The temperature anomaly detector of Warning\_system.py and temperature.py\<close>

text \<open>
  Both programs keep one bounded window of recent temperatures per machine and classify
  every new reading with an absolute threshold and a one-sided z-score test.

  Numbers: the arithmetic is not the programs' own. \<^verbatim>\<open>statistics.mean\<close>,
  \<^verbatim>\<open>statistics.stdev\<close>, the subtraction, the division, \<^verbatim>\<open>round\<close> and the
  comparisons belong to the Python runtime and its library, which round to doubles and
  may raise. The embedding therefore has two levels.
  \<^item> \<open>detect_anomaly_rt\<close> and \<open>detect_anomaly_temperature_rt\<close> are the two functions
    over any type of numbers and any runtime: a record of these operations, each of
    which may raise. What is proved of them holds whatever the runtime computes, rounds
    or raises.
  \<^item> \<open>detect_anomaly\<close> and \<open>detect_anomaly_temperature\<close> are the same two functions
    for the runtime that computes exactly over \<^typ>\<open>real\<close> (lemma
    \<open>exact_instance\<close>): no rounding to a double, no overflow, no infinity and no NaN.
    The properties that rest on a fact of arithmetic are stated for them.

  Time: \<^verbatim>\<open>time.time()\<close> is one read of the clock; the embedding takes the value
  read as the argument \<open>now\<close>.

  State: the global dictionary \<^verbatim>\<open>machine_temp_data\<close> is passed in and returned.
\<close>

subsection \<open>Configuration\<close>

definition WINDOW_SIZE :: nat where
  "WINDOW_SIZE = 10"

definition TEMP_THRESHOLD :: real where
  "TEMP_THRESHOLD = 75"

definition Z_SCORE_LIMIT :: real where
  "Z_SCORE_LIMIT = 5 / 2"

definition MACHINES :: "string list" where
  "MACHINES = [''Lathe_01'', ''Milling_02'', ''Drill_03'']"

subsection \<open>Values, dictionaries and exceptions\<close>

text \<open>
  The exceptions: KeyError is raised by a dictionary lookup and TypeError by unpacking
  None; the others are raised by the numeric operations of the runtime and its library.
\<close>

datatype error =
  KeyError | StatisticsError | ZeroDivisionError | TypeError | OverflowError | AttributeError

text \<open>The values stored in the dictionaries the programs build and serialise.\<close>

datatype pyval = PNone | PStr string | PNum real

text \<open>
  A Python dictionary keeps its keys in insertion order, and \<^verbatim>\<open>json.dumps\<close> writes
  them in that order: a dictionary with string keys is an association list.
\<close>

type_synonym dict = "(string \<times> pyval) list"

text \<open>\<^verbatim>\<open>d[k]\<close>: raises KeyError when the key is missing.\<close>

definition dict_get :: "dict \<Rightarrow> string \<Rightarrow> error + pyval" where
  "dict_get d k = (case map_of d k of None \<Rightarrow> Inl KeyError | Some v \<Rightarrow> Inr v)"

text \<open>The history buffer: machine id to the window of that machine.\<close>

type_synonym store = "string \<rightharpoonup> real list"

subsection \<open>Library functions the programs call, in exact arithmetic\<close>

text \<open>
  \<^verbatim>\<open>deque(maxlen=n).append(v)\<close>: the value goes to the right end; when the deque then
  holds more than \<open>maxlen\<close> items, the leftmost one is dropped.
\<close>

definition deque_append :: "nat \<Rightarrow> 'a list \<Rightarrow> 'a \<Rightarrow> 'a list" where
  "deque_append maxlen xs v =
     (let ys = xs @ [v] in if length ys > maxlen then tl ys else ys)"

text \<open>
  \<^verbatim>\<open>statistics.mean\<close> in exact arithmetic: the sum divided by the count, not rounded
  to a double; StatisticsError on empty data. The library's OverflowError is not a case
  of this function: it is one of a runtime of the general level.
\<close>

definition statistics_mean :: "real list \<Rightarrow> error + real" where
  "statistics_mean xs =
     (if length xs < 1 then Inl StatisticsError
      else Inr (sum_list xs / real (length xs)))"

text \<open>
  \<^verbatim>\<open>statistics.stdev\<close> in exact arithmetic: the square root of the sample variance,
  which is the sum of the squared deviations from the mean divided by \<open>n - 1\<close>, not
  rounded to a double; StatisticsError on fewer than two data points. No underflow and
  no OverflowError, as for the mean.
\<close>

definition statistics_stdev :: "real list \<Rightarrow> error + real" where
  "statistics_stdev xs =
     (if length xs < 2 then Inl StatisticsError
      else
        let c = sum_list xs / real (length xs);
            ss = sum_list (map (\<lambda>x. (x - c)\<^sup>2) xs)
        in Inr (sqrt (ss / real (length xs - 1))))"

text \<open>
  Division in exact arithmetic: the quotient, not rounded to a double;
  ZeroDivisionError on a zero divisor.
\<close>

definition py_div :: "real \<Rightarrow> real \<Rightarrow> error + real" where
  "py_div a b = (if b = 0 then Inl ZeroDivisionError else Inr (a / b))"

text \<open>
  \<^verbatim>\<open>round(x, ndigits)\<close> in exact arithmetic: the nearest multiple of
  \<open>10 ^ -ndigits\<close>, a tie going to the even one.
\<close>

definition round_half_even :: "real \<Rightarrow> int" where
  "round_half_even y =
     (let f = \<lfloor>y\<rfloor>; d = y - of_int f
      in if d < 1 / 2 then f
         else if d > 1 / 2 then f + 1
         else if even f then f else f + 1)"

definition py_round :: "real \<Rightarrow> nat \<Rightarrow> real" where
  "py_round x ndigits = of_int (round_half_even (x * 10 ^ ndigits)) / 10 ^ ndigits"

subsection \<open>Warning\_system.py, in exact arithmetic\<close>

text \<open>
  \<^verbatim>\<open>detect_anomaly(machine_id, temp)\<close>, lines 20 to 49. The result is the updated
  \<^verbatim>\<open>machine_temp_data\<close> and the returned pair, or the exception raised.
\<close>

definition detect_anomaly ::
  "store \<Rightarrow> string \<Rightarrow> real \<Rightarrow> real \<Rightarrow> error + (store \<times> bool \<times> dict option)" where
  "detect_anomaly machine_temp_data machine_id temp now =
     (let d1 = (if machine_temp_data machine_id = None
                then machine_temp_data(machine_id \<mapsto> [])
                else machine_temp_data)
      in case d1 machine_id of
           None \<Rightarrow> Inl KeyError
         | Some old \<Rightarrow>
             let readings = deque_append WINDOW_SIZE old temp;
                 d2 = d1(machine_id \<mapsto> readings)
             in if length readings < 5 then Inr (d2, False, None)
                else
                  case statistics_mean readings of
                    Inl e \<Rightarrow> Inl e
                  | Inr mean \<Rightarrow>
                      (case statistics_stdev readings of
                         Inl e \<Rightarrow> Inl e
                       | Inr stdev \<Rightarrow>
                           if stdev = 0 then Inr (d2, False, None)
                           else
                             (case py_div (temp - mean) stdev of
                                Inl e \<Rightarrow> Inl e
                              | Inr z_score \<Rightarrow>
                                  if temp > TEMP_THRESHOLD \<or> z_score > Z_SCORE_LIMIT then
                                    let reason = (if temp > TEMP_THRESHOLD
                                                  then ''HIGH_TEMP'' else ''Z_SCORE_SPIKE'')
                                    in Inr (d2, True, Some
                                         [(''machine_id'', PStr machine_id),
                                          (''temperature'', PNum temp),
                                          (''z_score'', PNum (py_round z_score 2)),
                                          (''mean_temp'', PNum (py_round mean 2)),
                                          (''anomaly_reason'', PStr reason),
                                          (''timestamp'', PNum now)])
                                  else Inr (d2, False, None))))"

text \<open>
  \<^verbatim>\<open>generate_alert(anomaly_data)\<close>, lines 52 to 64; temperature.py has the same
  function in its lines 65 to 80. The result is the dictionary \<^verbatim>\<open>alert\<close> that is
  serialised, logged and printed.
\<close>

definition generate_alert :: "dict \<Rightarrow> error + dict" where
  "generate_alert anomaly_data =
     (case dict_get anomaly_data ''machine_id'' of
        Inl e \<Rightarrow> Inl e
      | Inr machine \<Rightarrow>
     (case dict_get anomaly_data ''temperature'' of
        Inl e \<Rightarrow> Inl e
      | Inr temperature \<Rightarrow>
     (case dict_get anomaly_data ''z_score'' of
        Inl e \<Rightarrow> Inl e
      | Inr z_score \<Rightarrow>
     (case dict_get anomaly_data ''anomaly_reason'' of
        Inl e \<Rightarrow> Inl e
      | Inr reason \<Rightarrow>
     (case dict_get anomaly_data ''timestamp'' of
        Inl e \<Rightarrow> Inl e
      | Inr timestamp \<Rightarrow>
          Inr [(''type'', PStr ''TEMP_ANOMALY''),
               (''machine'', machine),
               (''temperature'', temperature),
               (''z_score'', z_score),
               (''reason'', reason),
               (''timestamp'', timestamp)])))))"

text \<open>
  One parsed line of the simulation's output: a JSON object of which the program reads
  the keys \<^verbatim>\<open>machine\<close>, \<^verbatim>\<open>spindle_temp\<close> and \<^verbatim>\<open>cycle_id\<close>. The machine, when
  the key is there, is a string; \<open>None\<close> is a missing key, for which
  \<^verbatim>\<open>data.get\<close> returns its default. The temperature is a number; \<open>None\<close> is a
  missing key or null, for both of which \<^verbatim>\<open>data.get\<close> returns None, as it does
  for the cycle id.
\<close>

record sim_data =
  sim_machine :: "string option"
  sim_spindle_temp :: "real option"
  sim_cycle_id :: "pyval option"

text \<open>
  \<^verbatim>\<open>process_simulation_output(sim_json)\<close>, lines 67 to 81, on the result of
  \<^verbatim>\<open>json.loads\<close>: \<open>None\<close> is a line that raises JSONDecodeError. The result is the
  updated history and the alert printed, if one is.
\<close>

definition process_simulation_output ::
  "store \<Rightarrow> sim_data option \<Rightarrow> real \<Rightarrow> error + (store \<times> dict option)" where
  "process_simulation_output machine_temp_data sim_json now =
     (case sim_json of
        None \<Rightarrow> Inr (machine_temp_data, None)
      | Some data \<Rightarrow>
          let temp = sim_spindle_temp data;
              machine_id = (case sim_machine data of None \<Rightarrow> ''CNC_Mill_1'' | Some m \<Rightarrow> m)
          in case temp of
               None \<Rightarrow> Inr (machine_temp_data, None)
             | Some temp \<Rightarrow>
                 (case detect_anomaly machine_temp_data machine_id temp now of
                    Inl e \<Rightarrow> Inl e
                  | Inr (d, is_anomaly, anomaly_data) \<Rightarrow>
                      if is_anomaly then
                        (case anomaly_data of
                           None \<Rightarrow> Inl TypeError
                         | Some a \<Rightarrow>
                             (case generate_alert
                                     (AList.update ''cycle_id''
                                        (case sim_cycle_id data of None \<Rightarrow> PNone | Some c \<Rightarrow> c) a) of
                                Inl e \<Rightarrow> Inl e
                              | Inr alert \<Rightarrow> Inr (d, Some alert)))
                      else Inr (d, None)))"

text \<open>
  \<^verbatim>\<open>main()\<close>, lines 84 to 87: every line read is processed in turn, each with the
  clock value of its call. The result is the final history and the alerts printed, in
  order.
\<close>

fun main :: "store \<Rightarrow> (sim_data option \<times> real) list \<Rightarrow> error + (store \<times> dict list)" where
  "main st [] = Inr (st, [])"
| "main st ((line, now) # ls) =
     (case process_simulation_output st line now of
        Inl e \<Rightarrow> Inl e
      | Inr (st', printed) \<Rightarrow>
          (case main st' ls of
             Inl e \<Rightarrow> Inl e
           | Inr (st'', out) \<Rightarrow>
               Inr (st'', (case printed of None \<Rightarrow> [] | Some alert \<Rightarrow> [alert]) @ out)))"

subsection \<open>temperature.py, in exact arithmetic\<close>

text \<open>
  \<^verbatim>\<open>machine_temp_data\<close> as line 20 builds it: an empty window for every machine of
  \<^verbatim>\<open>MACHINES\<close>.
\<close>

definition machine_temp_data_init :: store where
  "machine_temp_data_init = map_of (map (\<lambda>machine. (machine, [])) MACHINES)"

text \<open>
  \<^verbatim>\<open>detect_anomaly(machine, temp)\<close> of temperature.py, lines 34 to 63: the window is
  looked up, not created.
\<close>

definition detect_anomaly_temperature ::
  "store \<Rightarrow> string \<Rightarrow> real \<Rightarrow> real \<Rightarrow> error + (store \<times> bool \<times> dict option)" where
  "detect_anomaly_temperature machine_temp_data machine_id temp now =
     (case machine_temp_data machine_id of
        None \<Rightarrow> Inl KeyError
      | Some old \<Rightarrow>
          let readings = deque_append WINDOW_SIZE old temp;
              d2 = machine_temp_data(machine_id \<mapsto> readings)
          in if length readings < 5 then Inr (d2, False, None)
             else
               case statistics_mean readings of
                 Inl e \<Rightarrow> Inl e
               | Inr mean \<Rightarrow>
                   (case statistics_stdev readings of
                      Inl e \<Rightarrow> Inl e
                    | Inr stdev \<Rightarrow>
                        if stdev = 0 then Inr (d2, False, None)
                        else
                          (case py_div (temp - mean) stdev of
                             Inl e \<Rightarrow> Inl e
                           | Inr z_score \<Rightarrow>
                               if temp > TEMP_THRESHOLD \<or> z_score > Z_SCORE_LIMIT then
                                 let reason = (if temp > TEMP_THRESHOLD
                                               then ''HIGH_TEMP'' else ''Z_SCORE_SPIKE'')
                                 in Inr (d2, True, Some
                                      [(''machine_id'', PStr machine_id),
                                       (''temperature'', PNum temp),
                                       (''z_score'', PNum (py_round z_score 2)),
                                       (''mean_temp'', PNum (py_round mean 2)),
                                       (''anomaly_reason'', PStr reason),
                                       (''timestamp'', PNum now)])
                               else Inr (d2, False, None))))"

subsection \<open>Both programs over any runtime\<close>

text \<open>
  The values of a finding: a string or a number of the runtime.
\<close>

datatype 'n pyobj = OStr string | ONum 'n

text \<open>
  The numeric operations the programs call, over the runtime's numbers \<open>'n\<close> (ints and
  doubles, which include the infinities and NaN):
  \<^item> \<open>rt_lit\<close>: the number a literal of the source denotes (75, 2.5, 0);
  \<^item> \<open>rt_mean\<close>, \<open>rt_stdev\<close>: \<^verbatim>\<open>statistics.mean\<close> and \<^verbatim>\<open>statistics.stdev\<close>;
  \<^item> \<open>rt_sub\<close>, \<open>rt_div\<close>: \<^verbatim>\<open>a - b\<close> and \<^verbatim>\<open>a / b\<close>;
  \<^item> \<open>rt_round\<close>: \<^verbatim>\<open>round(x, ndigits)\<close>;
  \<^item> \<open>rt_gt\<close>, \<open>rt_eq\<close>: \<^verbatim>\<open>a > b\<close> and \<^verbatim>\<open>a == b\<close>, which never raise.
\<close>

record 'n runtime =
  rt_lit :: "real \<Rightarrow> 'n"
  rt_mean :: "'n list \<Rightarrow> error + 'n"
  rt_stdev :: "'n list \<Rightarrow> error + 'n"
  rt_sub :: "'n \<Rightarrow> 'n \<Rightarrow> error + 'n"
  rt_div :: "'n \<Rightarrow> 'n \<Rightarrow> error + 'n"
  rt_round :: "'n \<Rightarrow> nat \<Rightarrow> error + 'n"
  rt_gt :: "'n \<Rightarrow> 'n \<Rightarrow> bool"
  rt_eq :: "'n \<Rightarrow> 'n \<Rightarrow> bool"

text \<open>
  \<^verbatim>\<open>detect_anomaly(machine_id, temp)\<close> of Warning\_system.py, lines 20 to 49, over a
  runtime: every call into the runtime is a place where the function may raise.
\<close>

definition detect_anomaly_rt ::
  "'n runtime \<Rightarrow> (string \<rightharpoonup> 'n list) \<Rightarrow> string \<Rightarrow> 'n \<Rightarrow> 'n \<Rightarrow>
     error + ((string \<rightharpoonup> 'n list) \<times> bool \<times> (string \<times> 'n pyobj) list option)" where
  "detect_anomaly_rt rt machine_temp_data machine_id temp now =
     (let d1 = (if machine_temp_data machine_id = None
                then machine_temp_data(machine_id \<mapsto> [])
                else machine_temp_data)
      in case d1 machine_id of
           None \<Rightarrow> Inl KeyError
         | Some old \<Rightarrow>
             let readings = deque_append WINDOW_SIZE old temp;
                 d2 = d1(machine_id \<mapsto> readings)
             in if length readings < 5 then Inr (d2, False, None)
                else
                  case rt_mean rt readings of
                    Inl e \<Rightarrow> Inl e
                  | Inr mean \<Rightarrow>
                      (case rt_stdev rt readings of
                         Inl e \<Rightarrow> Inl e
                       | Inr stdev \<Rightarrow>
                           if rt_eq rt stdev (rt_lit rt 0) then Inr (d2, False, None)
                           else
                             (case rt_sub rt temp mean of
                                Inl e \<Rightarrow> Inl e
                              | Inr difference \<Rightarrow>
                             (case rt_div rt difference stdev of
                                Inl e \<Rightarrow> Inl e
                              | Inr z_score \<Rightarrow>
                                  if rt_gt rt temp (rt_lit rt TEMP_THRESHOLD) \<or>
                                     rt_gt rt z_score (rt_lit rt Z_SCORE_LIMIT)
                                  then
                                    let reason = (if rt_gt rt temp (rt_lit rt TEMP_THRESHOLD)
                                                  then ''HIGH_TEMP'' else ''Z_SCORE_SPIKE'')
                                    in case rt_round rt z_score 2 of
                                         Inl e \<Rightarrow> Inl e
                                       | Inr z_rounded \<Rightarrow>
                                      (case rt_round rt mean 2 of
                                         Inl e \<Rightarrow> Inl e
                                       | Inr mean_rounded \<Rightarrow>
                                           Inr (d2, True, Some
                                             [(''machine_id'', OStr machine_id),
                                              (''temperature'', ONum temp),
                                              (''z_score'', ONum z_rounded),
                                              (''mean_temp'', ONum mean_rounded),
                                              (''anomaly_reason'', OStr reason),
                                              (''timestamp'', ONum now)]))
                                  else Inr (d2, False, None)))))"

text \<open>
  \<^verbatim>\<open>detect_anomaly(machine, temp)\<close> of temperature.py, lines 34 to 63, over a runtime.
\<close>

definition detect_anomaly_temperature_rt ::
  "'n runtime \<Rightarrow> (string \<rightharpoonup> 'n list) \<Rightarrow> string \<Rightarrow> 'n \<Rightarrow> 'n \<Rightarrow>
     error + ((string \<rightharpoonup> 'n list) \<times> bool \<times> (string \<times> 'n pyobj) list option)" where
  "detect_anomaly_temperature_rt rt machine_temp_data machine_id temp now =
     (case machine_temp_data machine_id of
        None \<Rightarrow> Inl KeyError
      | Some old \<Rightarrow>
          let readings = deque_append WINDOW_SIZE old temp;
              d2 = machine_temp_data(machine_id \<mapsto> readings)
          in if length readings < 5 then Inr (d2, False, None)
             else
               case rt_mean rt readings of
                 Inl e \<Rightarrow> Inl e
               | Inr mean \<Rightarrow>
                   (case rt_stdev rt readings of
                      Inl e \<Rightarrow> Inl e
                    | Inr stdev \<Rightarrow>
                        if rt_eq rt stdev (rt_lit rt 0) then Inr (d2, False, None)
                        else
                          (case rt_sub rt temp mean of
                             Inl e \<Rightarrow> Inl e
                           | Inr difference \<Rightarrow>
                          (case rt_div rt difference stdev of
                             Inl e \<Rightarrow> Inl e
                           | Inr z_score \<Rightarrow>
                               if rt_gt rt temp (rt_lit rt TEMP_THRESHOLD) \<or>
                                  rt_gt rt z_score (rt_lit rt Z_SCORE_LIMIT)
                               then
                                 let reason = (if rt_gt rt temp (rt_lit rt TEMP_THRESHOLD)
                                               then ''HIGH_TEMP'' else ''Z_SCORE_SPIKE'')
                                 in case rt_round rt z_score 2 of
                                      Inl e \<Rightarrow> Inl e
                                    | Inr z_rounded \<Rightarrow>
                                   (case rt_round rt mean 2 of
                                      Inl e \<Rightarrow> Inl e
                                    | Inr mean_rounded \<Rightarrow>
                                        Inr (d2, True, Some
                                          [(''machine_id'', OStr machine_id),
                                           (''temperature'', ONum temp),
                                           (''z_score'', ONum z_rounded),
                                           (''mean_temp'', ONum mean_rounded),
                                           (''anomaly_reason'', OStr reason),
                                           (''timestamp'', ONum now)]))
                               else Inr (d2, False, None)))))"

text \<open>
  The runtime that computes exactly over the reals, with the library functions above.
\<close>

definition exact_runtime :: "real runtime" where
  "exact_runtime =
     \<lparr>rt_lit = (\<lambda>x. x),
      rt_mean = statistics_mean,
      rt_stdev = statistics_stdev,
      rt_sub = (\<lambda>a b. Inr (a - b)),
      rt_div = py_div,
      rt_round = (\<lambda>x ndigits. Inr (py_round x ndigits)),
      rt_gt = (\<lambda>a b. a > b),
      rt_eq = (\<lambda>a b. a = b)\<rparr>"

text \<open>The results of the general level at the exact runtime, read as those of the exact level.\<close>

fun to_pyval :: "real pyobj \<Rightarrow> pyval" where
  "to_pyval (OStr s) = PStr s"
| "to_pyval (ONum x) = PNum x"

definition to_result ::
  "store \<times> bool \<times> (string \<times> real pyobj) list option \<Rightarrow> store \<times> bool \<times> dict option" where
  "to_result r =
     (case r of (st, b, fo) \<Rightarrow> (st, b, map_option (map (\<lambda>(k, x). (k, to_pyval x))) fo))"

subsection \<open>Runs\<close>

text \<open>
  A run is the sequence of calls a driver makes: each reading is a machine id, a
  temperature and the clock value at the call. The run stops at the first exception and
  otherwise returns the final history and the pair returned by every call, in order.
\<close>

type_synonym reading = "string \<times> real \<times> real"

fun feed :: "store \<Rightarrow> reading list \<Rightarrow> error + (store \<times> (bool \<times> dict option) list)" where
  "feed st [] = Inr (st, [])"
| "feed st ((m, v, t) # rs) =
     (case detect_anomaly st m v t of
        Inl e \<Rightarrow> Inl e
      | Inr (st', r) \<Rightarrow>
          (case feed st' rs of
             Inl e \<Rightarrow> Inl e
           | Inr (st'', out) \<Rightarrow> Inr (st'', r # out)))"

fun feed_temperature ::
  "store \<Rightarrow> reading list \<Rightarrow> error + (store \<times> (bool \<times> dict option) list)" where
  "feed_temperature st [] = Inr (st, [])"
| "feed_temperature st ((m, v, t) # rs) =
     (case detect_anomaly_temperature st m v t of
        Inl e \<Rightarrow> Inl e
      | Inr (st', r) \<Rightarrow>
          (case feed_temperature st' rs of
             Inl e \<Rightarrow> Inl e
           | Inr (st'', out) \<Rightarrow> Inr (st'', r # out)))"

subsection \<open>Notions the properties are stated with\<close>

text \<open>The window of a machine: empty as long as the machine has not been seen.\<close>

definition window :: "store \<Rightarrow> string \<Rightarrow> real list" where
  "window st m = (case st m of None \<Rightarrow> [] | Some w \<Rightarrow> w)"

text \<open>The last \<open>n\<close> items of a list, in order.\<close>

definition last_n :: "nat \<Rightarrow> 'a list \<Rightarrow> 'a list" where
  "last_n n xs = drop (length xs - n) xs"

text \<open>The temperatures of one machine in a run, in arrival order.\<close>

definition values_of :: "string \<Rightarrow> reading list \<Rightarrow> real list" where
  "values_of m rs = map (\<lambda>(m', v, t). v) (filter (\<lambda>(m', v, t). m' = m) rs)"

text \<open>The arithmetic mean and the Bessel-corrected sample standard deviation.\<close>

definition arith_mean :: "real list \<Rightarrow> real" where
  "arith_mean xs = sum_list xs / real (length xs)"

definition sample_stdev :: "real list \<Rightarrow> real" where
  "sample_stdev xs =
     sqrt (sum_list (map (\<lambda>x. (x - arith_mean xs)\<^sup>2) xs) / (real (length xs) - 1))"

text \<open>The readings of one machine in a run, and the results returned for them.\<close>

definition readings_of :: "string \<Rightarrow> reading list \<Rightarrow> reading list" where
  "readings_of m rs = filter (\<lambda>(m', v, t). m' = m) rs"

definition results_of ::
  "string \<Rightarrow> reading list \<Rightarrow> (bool \<times> dict option) list \<Rightarrow> (bool \<times> dict option) list" where
  "results_of m rs out = map snd (filter (\<lambda>((m', v, t), r). m' = m) (zip rs out))"

subsection \<open>The classification in closed form\<close>

text \<open>
  The window a call works on: the stored one with the new temperature appended. The
  lemma \<open>detect_anomaly_eq\<close> below shows that \<open>detect_anomaly\<close> stores this window
  and returns \<open>verdict\<close> of it.
\<close>

definition appended :: "store \<Rightarrow> string \<Rightarrow> real \<Rightarrow> real list" where
  "appended st m v = deque_append WINDOW_SIZE (window st m) v"

definition finding :: "string \<Rightarrow> real list \<Rightarrow> real \<Rightarrow> real \<Rightarrow> dict" where
  "finding m w v t =
     [(''machine_id'', PStr m),
      (''temperature'', PNum v),
      (''z_score'', PNum (py_round ((v - arith_mean w) / sample_stdev w) 2)),
      (''mean_temp'', PNum (py_round (arith_mean w) 2)),
      (''anomaly_reason'',
         PStr (if v > TEMP_THRESHOLD then ''HIGH_TEMP'' else ''Z_SCORE_SPIKE'')),
      (''timestamp'', PNum t)]"

definition verdict :: "string \<Rightarrow> real list \<Rightarrow> real \<Rightarrow> real \<Rightarrow> bool \<times> dict option" where
  "verdict m w v t =
     (if length w < 5 \<or> sample_stdev w = 0 then (False, None)
      else if v > TEMP_THRESHOLD \<or> (v - arith_mean w) / sample_stdev w > Z_SCORE_LIMIT
           then (True, Some (finding m w v t))
           else (False, None))"

text \<open>The fields of a finding other than the machine id and the timestamp.\<close>

definition verdict_fields :: "dict \<Rightarrow> pyval option list" where
  "verdict_fields f =
     map (map_of f) [''temperature'', ''z_score'', ''mean_temp'', ''anomaly_reason'']"

subsection \<open>Example inputs\<close>

text \<open>Two machines interleaved; the last reading of the lathe is a spike.\<close>

definition example_run :: "reading list" where
  "example_run =
     [(''Lathe_01'', 70, 1), (''Drill_03'', 10, 2), (''Lathe_01'', 70, 3),
      (''Lathe_01'', 70, 4), (''Drill_03'', 90, 5), (''Lathe_01'', 70, 6),
      (''Lathe_01'', 70, 7), (''Lathe_01'', 70, 8), (''Lathe_01'', 70, 9),
      (''Lathe_01'', 70, 10), (''Lathe_01'', 79, 11)]"

text \<open>Twelve readings of one machine, more than a window holds, and one of another.\<close>

definition example_long_run :: "reading list" where
  "example_long_run =
     [(''Lathe_01'', 1, 1), (''Lathe_01'', 2, 2), (''Lathe_01'', 3, 3),
      (''Lathe_01'', 4, 4), (''Drill_03'', 99, 5), (''Lathe_01'', 5, 6),
      (''Lathe_01'', 6, 7), (''Lathe_01'', 7, 8), (''Lathe_01'', 8, 9),
      (''Lathe_01'', 9, 10), (''Lathe_01'', 10, 11), (''Lathe_01'', 11, 12),
      (''Lathe_01'', 12, 13)]"



text \<open>
  The line \<^verbatim>\<open>{"machine": "CNC_Mill_1", "spindle_temp": v, "cycle_id": c}\<close>, parsed.
\<close>

definition example_line :: "real \<Rightarrow> real \<Rightarrow> sim_data option" where
  "example_line v c =
     Some \<lparr>sim_machine = Some ''CNC_Mill_1'', sim_spindle_temp = Some v,
           sim_cycle_id = Some (PNum c)\<rparr>"

text \<open>The alert printed for the line of temperature 79 and cycle id 9, read at time 9.\<close>

definition example_alert :: dict where
  "example_alert =
     [(''type'', PStr ''TEMP_ANOMALY''), (''machine'', PStr ''CNC_Mill_1''),
      (''temperature'', PNum 79), (''z_score'', PNum (267 / 100)),
      (''reason'', PStr ''HIGH_TEMP''), (''timestamp'', PNum 9)]"

definition example_lines :: "(sim_data option \<times> real) list" where
  "example_lines =
     [(example_line 70 1, 1), (example_line 70 2, 2), (example_line 70 3, 3),
      (example_line 70 4, 4), (example_line 70 5, 5), (example_line 70 6, 6),
      (example_line 70 7, 7), (example_line 70 8, 8), (example_line 79 9, 9)]"

section \<open>The library functions on the windows the programs reach\<close>

lemma stats_mean_eq: "xs \<noteq> [] \<Longrightarrow> statistics_mean xs = Inr (arith_mean xs)"
  by (cases xs) (simp_all add: statistics_mean_def arith_mean_def)

lemma stats_stdev_eq: "2 \<le> length xs \<Longrightarrow> statistics_stdev xs = Inr (sample_stdev xs)"
  by (simp add: statistics_stdev_def sample_stdev_def arith_mean_def Let_def of_nat_diff)

lemma detect_anomaly_eq:
  "detect_anomaly st m v t = Inr (st(m \<mapsto> appended st m v), verdict m (appended st m v) v t)"
proof (cases "length (appended st m v) < 5")
  case True
  then show ?thesis
    by (auto simp: detect_anomaly_def appended_def window_def verdict_def Let_def split: option.splits)
next
  case False
  then have ne: "appended st m v \<noteq> []" and two: "2 \<le> length (appended st m v)" by auto
  show ?thesis
    using False stats_mean_eq[OF ne] stats_stdev_eq[OF two]
    by (auto simp: detect_anomaly_def appended_def window_def verdict_def finding_def py_div_def Let_def
        split: option.splits)
qed

lemma detect_anomaly_temperature_eq:
  "detect_anomaly_temperature st m v t =
     (if st m = None then Inl KeyError else detect_anomaly st m v t)"
  by (auto simp: detect_anomaly_temperature_def detect_anomaly_def split: option.splits)

section \<open>Windows and statistics\<close>

lemma sum_list_const: "\<forall>x\<in>set xs. x = c \<Longrightarrow> sum_list xs = real (length xs) * c"
  by (induction xs) (auto simp: algebra_simps)

lemma arith_mean_const: "xs \<noteq> [] \<Longrightarrow> \<forall>x\<in>set xs. x = c \<Longrightarrow> arith_mean xs = c"
  by (simp add: arith_mean_def sum_list_const)

lemma sample_stdev_const:
  assumes "xs \<noteq> []" "\<forall>x\<in>set xs. x = c"
  shows "sample_stdev xs = 0"
proof -
  have "arith_mean xs = c" using assms by (rule arith_mean_const)
  then have "\<forall>y\<in>set (map (\<lambda>x. (x - arith_mean xs)\<^sup>2) xs). y = 0"
    using assms(2) by simp
  then have "sum_list (map (\<lambda>x. (x - arith_mean xs)\<^sup>2) xs) = 0"
    by (simp only: sum_list_const)
  then show ?thesis by (simp add: sample_stdev_def)
qed

lemma sample_stdev_nonneg: "2 \<le> length xs \<Longrightarrow> 0 \<le> sample_stdev xs"
  unfolding sample_stdev_def
  by (intro real_sqrt_ge_zero divide_nonneg_nonneg sum_list_nonneg) auto

lemma length_deque_append:
  "length (deque_append n xs v) = (if length xs + 1 > n then length xs else length xs + 1)"
  by (simp add: deque_append_def Let_def)

lemma deque_append_last_n:
  "0 < n \<Longrightarrow> length xs \<le> n \<Longrightarrow> deque_append n xs v = last_n n (xs @ [v])"
  by (cases xs) (auto simp: deque_append_def last_n_def Let_def not_less Suc_diff_le drop_Suc le_Suc_eq)

lemma last_n_last_n_snoc:
  "last_n n (last_n n xs @ [v]) = last_n n (xs @ [v])"
proof (cases "length xs \<le> n")
  case True
  then show ?thesis by (simp add: last_n_def)
next
  case False
  then have "Suc (length xs) - n = Suc (length xs - n)" by simp
  with False show ?thesis by (simp add: last_n_def min_def)
qed

lemma length_last_n: "length (last_n n xs) \<le> n"
  by (auto simp: last_n_def)

lemma foldl_deque_append:
  "0 < n \<Longrightarrow> length w \<le> n \<Longrightarrow> foldl (deque_append n) w vs = last_n n (w @ vs)"
proof (induction vs rule: rev_induct)
  case Nil
  then show ?case by (simp add: last_n_def)
next
  case (snoc v vs)
  have "foldl (deque_append n) w (vs @ [v]) = deque_append n (last_n n (w @ vs)) v"
    using snoc by simp
  also have "\<dots> = last_n n (last_n n (w @ vs) @ [v])"
    using snoc.prems(1) by (simp add: deque_append_last_n length_last_n)
  also have "\<dots> = last_n n (w @ vs @ [v])"
    using last_n_last_n_snoc[of n "w @ vs" v] by simp
  finally show ?case by simp
qed

section \<open>Runs\<close>

lemma window_upd_same: "window (st(m \<mapsto> w)) m = w"
  by (simp add: window_def)

lemma window_upd_other: "m' \<noteq> m \<Longrightarrow> window (st(m \<mapsto> w)) m' = window st m'"
  by (simp add: window_def)

lemma feed_Cons:
  "feed st ((m, v, t) # rs) =
     (case feed (st(m \<mapsto> appended st m v)) rs of
        Inl e \<Rightarrow> Inl e
      | Inr (st'', out) \<Rightarrow> Inr (st'', verdict m (appended st m v) v t # out))"
  by (simp add: detect_anomaly_eq)

lemma feed_returns: "\<exists>st' out. feed st rs = Inr (st', out) \<and> length out = length rs"
proof (induction rs arbitrary: st)
  case Nil
  then show ?case by simp
next
  case (Cons r rs)
  obtain m v t where r: "r = (m, v, t)" by (cases r)
  from Cons[of "st(m \<mapsto> appended st m v)"] obtain st' out
    where "feed (st(m \<mapsto> appended st m v)) rs = Inr (st', out)" "length out = length rs"
    by blast
  then show ?case
    unfolding r feed_Cons by simp
qed

lemma feed_window:
  "feed st rs = Inr (st', out) \<Longrightarrow>
   window st' m = foldl (deque_append WINDOW_SIZE) (window st m) (values_of m rs)"
proof (induction rs arbitrary: st out)
  case Nil
  then show ?case by (simp add: values_of_def)
next
  case (Cons r rs)
  obtain m1 v t where r: "r = (m1, v, t)" by (cases r)
  let ?st1 = "st(m1 \<mapsto> appended st m1 v)"
  from Cons.prems obtain out1 where f: "feed ?st1 rs = Inr (st', out1)"
    unfolding r feed_Cons by (auto split: sum.splits)
  have ih: "window st' m = foldl (deque_append WINDOW_SIZE) (window ?st1 m) (values_of m rs)"
    using Cons.IH[OF f] .
  show ?case
  proof (cases "m1 = m")
    case True
    then show ?thesis using ih by (simp add: r values_of_def window_upd_same appended_def)
  next
    case False
    then show ?thesis using ih by (simp add: r values_of_def window_upd_other)
  qed
qed

lemma feed_alone:
  "feed st1 rs = Inr (st1', out1) \<Longrightarrow> feed st2 (readings_of m rs) = Inr (st2', out2) \<Longrightarrow>
   window st1 m = window st2 m \<Longrightarrow>
   out2 = results_of m rs out1 \<and> window st2' m = window st1' m"
proof (induction rs arbitrary: st1 st2 out1 out2)
  case Nil
  then show ?case by (auto simp: readings_of_def results_of_def)
next
  case (Cons r rs)
  obtain m1 v t where r: "r = (m1, v, t)" by (cases r)
  let ?s1 = "st1(m1 \<mapsto> appended st1 m1 v)"
  from Cons.prems(1) obtain o1 where f1: "feed ?s1 rs = Inr (st1', o1)"
    and out1: "out1 = verdict m1 (appended st1 m1 v) v t # o1"
    unfolding r feed_Cons by (auto split: sum.splits)
  show ?case
  proof (cases "m1 = m")
    case True
    let ?s2 = "st2(m \<mapsto> appended st2 m v)"
    have app: "appended st2 m v = appended st1 m v"
      using Cons.prems(3) by (simp add: appended_def)
    have "feed st2 ((m, v, t) # readings_of m rs) = Inr (st2', out2)"
      using Cons.prems(2) True by (simp add: r readings_of_def)
    then obtain o2 where f2: "feed ?s2 (readings_of m rs) = Inr (st2', o2)"
      and out2: "out2 = verdict m (appended st2 m v) v t # o2"
      unfolding feed_Cons by (auto split: sum.splits)
    have w: "window ?s1 m = window ?s2 m"
      using True app by (simp add: window_upd_same)
    from Cons.IH[OF f1 f2 w] show ?thesis
      using True out1 out2 app by (simp add: r results_of_def)
  next
    case False
    have f2: "feed st2 (readings_of m rs) = Inr (st2', out2)"
      using Cons.prems(2) False by (simp add: r readings_of_def)
    have w: "window ?s1 m = window st2 m"
      using False Cons.prems(3) by (simp add: window_upd_other)
    from Cons.IH[OF f1 f2 w] show ?thesis
      using False out1 by (simp add: r results_of_def)
  qed
qed

lemma feed_dom: "feed st rs = Inr (st', out) \<Longrightarrow> st m \<noteq> None \<Longrightarrow> st' m \<noteq> None"
proof (induction rs arbitrary: st out)
  case Nil
  then show ?case by simp
next
  case (Cons r rs)
  obtain m1 v t where r: "r = (m1, v, t)" by (cases r)
  from Cons.prems(1) obtain o1 where f1: "feed (st(m1 \<mapsto> appended st m1 v)) rs = Inr (st', o1)"
    unfolding r feed_Cons by (auto split: sum.splits)
  from Cons.IH[OF f1] Cons.prems(2) show ?case by simp
qed

lemma feed_temperature_eq:
  "\<forall>r\<in>set rs. st (fst r) \<noteq> None \<Longrightarrow> feed_temperature st rs = feed st rs"
proof (induction rs arbitrary: st)
  case Nil
  then show ?case by simp
next
  case (Cons r rs)
  obtain m v t where r: "r = (m, v, t)" by (cases r)
  have k: "st m \<noteq> None" using Cons.prems by (simp add: r)
  have "feed_temperature (st(m \<mapsto> appended st m v)) rs = feed (st(m \<mapsto> appended st m v)) rs"
    using Cons.prems by (intro Cons.IH) auto
  then show ?case using k
    by (auto simp: r detect_anomaly_temperature_eq detect_anomaly_eq)
qed

section \<open>Both programs at once\<close>

text \<open>
  temperature.py looks the window up where Warning\_system.py creates it: on a machine
  that has a window the two functions agree.
\<close>

lemma detect_anomaly_temperature_known:
  "st m \<noteq> None \<Longrightarrow>
   detect_anomaly_temperature st m v t =
     Inr (st(m \<mapsto> appended st m v), verdict m (appended st m v) v t)"
  by (simp add: detect_anomaly_temperature_eq detect_anomaly_eq)

lemma either_program:
  "d = detect_anomaly \<or> d = detect_anomaly_temperature \<and> st m \<noteq> None \<Longrightarrow>
   d st m v t = Inr (st(m \<mapsto> appended st m v), verdict m (appended st m v) v t)"
  by (auto simp: detect_anomaly_eq detect_anomaly_temperature_known)

lemma either_run:
  "run = feed \<or> run = feed_temperature \<and> (\<forall>r\<in>set rs. st (fst r) \<noteq> None) \<Longrightarrow>
   run st rs = feed st rs"
  by (auto simp: feed_temperature_eq)

section \<open>The general level\<close>

text \<open>The exact level is the general one at the exact runtime.\<close>

lemma exact_instance:
  "map_sum id to_result (detect_anomaly_rt exact_runtime st m v t) = detect_anomaly st m v t"
  by (simp add: detect_anomaly_rt_def detect_anomaly_def exact_runtime_def to_result_def Let_def
      split: option.splits sum.splits)

lemma exact_instance_temperature:
  "map_sum id to_result (detect_anomaly_temperature_rt exact_runtime st m v t) =
     detect_anomaly_temperature st m v t"
  by (simp add: detect_anomaly_temperature_rt_def detect_anomaly_temperature_def
      exact_runtime_def to_result_def Let_def split: option.splits sum.splits)

lemma detect_anomaly_temperature_rt_eq:
  "detect_anomaly_temperature_rt rt st m v t =
     (if st m = None then Inl KeyError else detect_anomaly_rt rt st m v t)"
  by (auto simp: detect_anomaly_temperature_rt_def detect_anomaly_rt_def split: option.splits)

lemma either_rt:
  "d = detect_anomaly_rt \<or> d = detect_anomaly_temperature_rt \<Longrightarrow>
   d rt st m v t = Inr r \<Longrightarrow> detect_anomaly_rt rt st m v t = Inr r"
  by (auto simp: detect_anomaly_temperature_rt_eq split: if_splits)

lemma detect_anomaly_rt_finding:
  assumes "detect_anomaly_rt rt st m v t = Inr (st', b, fo)"
  shows "(b \<longleftrightarrow> fo \<noteq> None) \<and>
     (\<exists>w. st' m = Some w \<and> w \<noteq> [] \<and> last w = v \<and>
        w = deque_append WINDOW_SIZE (case st m of None \<Rightarrow> [] | Some old \<Rightarrow> old) v \<and>
        (\<forall>f. fo = Some f \<longrightarrow>
           (\<exists>mu sd x z rz rm.
              5 \<le> length w \<and>
              rt_mean rt w = Inr mu \<and> rt_stdev rt w = Inr sd \<and>
              \<not> rt_eq rt sd (rt_lit rt 0) \<and>
              rt_sub rt v mu = Inr x \<and> rt_div rt x sd = Inr z \<and>
              rt_round rt z 2 = Inr rz \<and> rt_round rt mu 2 = Inr rm \<and>
              (rt_gt rt v (rt_lit rt TEMP_THRESHOLD) \<or> rt_gt rt z (rt_lit rt Z_SCORE_LIMIT)) \<and>
              f = [(''machine_id'', OStr m), (''temperature'', ONum v),
                   (''z_score'', ONum rz), (''mean_temp'', ONum rm),
                   (''anomaly_reason'',
                      OStr (if rt_gt rt v (rt_lit rt TEMP_THRESHOLD)
                            then ''HIGH_TEMP'' else ''Z_SCORE_SPIKE'')),
                   (''timestamp'', ONum t)])))"
proof -
  define old where "old = (case st m of None \<Rightarrow> [] | Some old \<Rightarrow> old)"
  define w where "w = deque_append WINDOW_SIZE old v"
  have w: "w \<noteq> [] \<and> last w = v"
    by (cases old) (auto simp: w_def deque_append_def WINDOW_SIZE_def Let_def)
  have d1: "(if st m = None then st(m \<mapsto> []) else st) m = Some old"
    by (auto simp: old_def)
  show ?thesis
    using assms w
    unfolding detect_anomaly_rt_def Let_def d1 old_def [symmetric] option.case w_def [symmetric]
    by (auto split: if_splits sum.splits)
qed

section \<open>Alerts\<close>

lemma generate_alert_finding:
  "generate_alert (AList.update ''cycle_id'' c (finding m w v t)) =
     Inr [(''type'', PStr ''TEMP_ANOMALY''),
          (''machine'', PStr m),
          (''temperature'', PNum v),
          (''z_score'', PNum (py_round ((v - arith_mean w) / sample_stdev w) 2)),
          (''reason'', PStr (if v > TEMP_THRESHOLD then ''HIGH_TEMP'' else ''Z_SCORE_SPIKE'')),
          (''timestamp'', PNum t)]"
  by (simp add: generate_alert_def finding_def dict_get_def)

section \<open>Evaluation of the examples\<close>

lemma sqrt_9: "sqrt 9 = 3"
  using real_sqrt_abs [of 3] by simp

lemmas evaluate =
  machine_temp_data_init_def MACHINES_def TEMP_THRESHOLD_def Z_SCORE_LIMIT_def WINDOW_SIZE_def
  detect_anomaly_def detect_anomaly_temperature_def deque_append_def
  statistics_mean_def statistics_stdev_def py_div_def py_round_def round_half_even_def
  window_def arith_mean_def sample_stdev_def sqrt_9 Let_def

lemmas evaluate_rt =
  detect_anomaly_rt_def detect_anomaly_temperature_rt_def exact_runtime_def evaluate

section \<open>Properties\<close>

text \<open>
  The properties of \<^verbatim>\<open>detect_anomaly\<close> are stated for a function \<open>d\<close> that is
  either the one of Warning\_system.py, on any machine id, or the one of temperature.py,
  on a machine that has a window. C2, C3 and C6 are about what the programs do with
  the numbers the runtime hands back and with its exceptions: they are stated at the
  general level, for every runtime. The others are stated at the exact level.
\<close>

text \<open>
  C1. A call after which the machine's window holds at least 5 values, all equal to one
  value \<open>c\<close>, finds the sample standard deviation 0 and returns \<open>(False, None)\<close>:
  the test on the deviation comes before the test on the threshold, so this holds for
  every \<open>c\<close>, also above \<open>TEMP_THRESHOLD\<close>.
\<close>

theorem zero_variance_never_anomalous:
  "d = detect_anomaly \<or> d = detect_anomaly_temperature \<and> st m \<noteq> None \<Longrightarrow>
   \<exists>st' r. d st m v t = Inr (st', r) \<and>
     (5 \<le> length (window st' m) \<and> (\<forall>x\<in>set (window st' m). x = c) \<longrightarrow>
        sample_stdev (window st' m) = 0 \<and> r = (False, None))"
proof -
  assume d: "d = detect_anomaly \<or> d = detect_anomaly_temperature \<and> st m \<noteq> None"
  have "sample_stdev w = 0 \<and> verdict m w v t = (False, None)"
    if "5 \<le> length w" "\<forall>x\<in>set w. x = c" for w
  proof -
    from that(1) have "w \<noteq> []" by auto
    then have "sample_stdev w = 0" using that(2) by (rule sample_stdev_const)
    then show ?thesis by (simp add: verdict_def)
  qed
  then show ?thesis
    by (simp add: either_program [of d st m, OF d] window_upd_same)
qed

theorem zero_variance_never_anomalous_witness:
  "[''Lathe_01'' \<mapsto> [80, 80, 80, 80]] ''Lathe_01'' \<noteq> None \<and>
   TEMP_THRESHOLD < 80 \<and>
   5 \<le> length (window [''Lathe_01'' \<mapsto> [80, 80, 80, 80, 80]] ''Lathe_01'') \<and>
   set (window [''Lathe_01'' \<mapsto> [80, 80, 80, 80, 80]] ''Lathe_01'') = {80} \<and>
   detect_anomaly [''Lathe_01'' \<mapsto> [80, 80, 80, 80]] ''Lathe_01'' 80 0 =
     Inr ([''Lathe_01'' \<mapsto> [80, 80, 80, 80, 80]], False, None) \<and>
   detect_anomaly_temperature [''Lathe_01'' \<mapsto> [80, 80, 80, 80]] ''Lathe_01'' 80 0 =
     Inr ([''Lathe_01'' \<mapsto> [80, 80, 80, 80, 80]], False, None)"
  using
    zero_variance_never_anomalous
      [of detect_anomaly "[''Lathe_01'' \<mapsto> [80, 80, 80, 80]]" "''Lathe_01''" 80 0 80]
    zero_variance_never_anomalous
      [of detect_anomaly_temperature "[''Lathe_01'' \<mapsto> [80, 80, 80, 80]]" "''Lathe_01''" 80 0 80]
  by (simp add: evaluate)




text \<open>
  C3. When a call, on any runtime, returns a finding, the runtime has returned a mean
  and a deviation for the window stored, and a z-score for the temperature. When the
  comparison of the temperature with \<open>TEMP_THRESHOLD\<close> holds, the reason is
  HIGH\_TEMP, whatever the comparison of the z-score gives; the reason is
  Z\_SCORE\_SPIKE exactly when the comparison of the temperature fails and the one of
  that z-score with \<open>Z_SCORE_LIMIT\<close> holds. The z-score is the number the runtime
  computed, with its rounding.
\<close>

theorem reason_tie_break:
  "d = detect_anomaly_rt \<or> d = detect_anomaly_temperature_rt \<Longrightarrow>
   d rt st m v t = Inr (st', b, fo) \<Longrightarrow>
   (b \<longleftrightarrow> fo \<noteq> None) \<and>
   (\<forall>f. fo = Some f \<longrightarrow>
      (\<exists>w mu sd x z.
         st' m = Some w \<and> rt_mean rt w = Inr mu \<and> rt_stdev rt w = Inr sd \<and>
         rt_sub rt v mu = Inr x \<and> rt_div rt x sd = Inr z \<and>
         (rt_gt rt v (rt_lit rt TEMP_THRESHOLD) \<longrightarrow>
            map_of f ''anomaly_reason'' = Some (OStr ''HIGH_TEMP'')) \<and>
         (map_of f ''anomaly_reason'' = Some (OStr ''Z_SCORE_SPIKE'') \<longleftrightarrow>
            \<not> rt_gt rt v (rt_lit rt TEMP_THRESHOLD) \<and>
            rt_gt rt z (rt_lit rt Z_SCORE_LIMIT))))"
proof -
  assume d: "d = detect_anomaly_rt \<or> d = detect_anomaly_temperature_rt"
    and r: "d rt st m v t = Inr (st', b, fo)"
  have "detect_anomaly_rt rt st m v t = Inr (st', b, fo)"
    using d r by (rule either_rt)
  from detect_anomaly_rt_finding [OF this] show ?thesis
    by auto
qed

theorem reason_tie_break_witness:
  "rt_gt exact_runtime 79 (rt_lit exact_runtime TEMP_THRESHOLD) \<and>
   rt_mean exact_runtime [70, 70, 70, 70, 70, 70, 70, 70, 79] = Inr 71 \<and>
   rt_stdev exact_runtime [70, 70, 70, 70, 70, 70, 70, 70, 79] = Inr 3 \<and>
   rt_sub exact_runtime 79 71 = Inr 8 \<and>
   rt_div exact_runtime 8 3 = Inr (8 / 3) \<and>
   rt_gt exact_runtime (8 / 3) (rt_lit exact_runtime Z_SCORE_LIMIT) \<and>
   detect_anomaly_rt exact_runtime
       [''Lathe_01'' \<mapsto> [70, 70, 70, 70, 70, 70, 70, 70]] ''Lathe_01'' 79 1000 =
     Inr ([''Lathe_01'' \<mapsto> [70, 70, 70, 70, 70, 70, 70, 70, 79]], True,
          Some [(''machine_id'', OStr ''Lathe_01''), (''temperature'', ONum 79),
                (''z_score'', ONum (267 / 100)), (''mean_temp'', ONum 71),
                (''anomaly_reason'', OStr ''HIGH_TEMP''), (''timestamp'', ONum 1000)]) \<and>
   detect_anomaly_temperature_rt exact_runtime
       [''Lathe_01'' \<mapsto> [50, 50, 50, 50, 50, 50, 50, 50]] ''Lathe_01'' 59 1000 =
     Inr ([''Lathe_01'' \<mapsto> [50, 50, 50, 50, 50, 50, 50, 50, 59]], True,
          Some [(''machine_id'', OStr ''Lathe_01''), (''temperature'', ONum 59),
                (''z_score'', ONum (267 / 100)), (''mean_temp'', ONum 51),
                (''anomaly_reason'', OStr ''Z_SCORE_SPIKE''), (''timestamp'', ONum 1000)])"
proof -
  have a: "detect_anomaly_rt exact_runtime
       [''Lathe_01'' \<mapsto> [70, 70, 70, 70, 70, 70, 70, 70]] ''Lathe_01'' 79 1000 =
     Inr ([''Lathe_01'' \<mapsto> [70, 70, 70, 70, 70, 70, 70, 70, 79]], True,
          Some [(''machine_id'', OStr ''Lathe_01''), (''temperature'', ONum 79),
                (''z_score'', ONum (267 / 100)), (''mean_temp'', ONum 71),
                (''anomaly_reason'', OStr ''HIGH_TEMP''), (''timestamp'', ONum 1000)])"
    by (simp add: evaluate_rt)
  have b: "detect_anomaly_temperature_rt exact_runtime
       [''Lathe_01'' \<mapsto> [50, 50, 50, 50, 50, 50, 50, 50]] ''Lathe_01'' 59 1000 =
     Inr ([''Lathe_01'' \<mapsto> [50, 50, 50, 50, 50, 50, 50, 50, 59]], True,
          Some [(''machine_id'', OStr ''Lathe_01''), (''temperature'', ONum 59),
                (''z_score'', ONum (267 / 100)), (''mean_temp'', ONum 51),
                (''anomaly_reason'', OStr ''Z_SCORE_SPIKE''), (''timestamp'', ONum 1000)])"
    by (simp add: evaluate_rt)
  from reason_tie_break [of detect_anomaly_rt, OF _ a]
    reason_tie_break [of detect_anomaly_temperature_rt, OF _ b] a b
  show ?thesis
    by (simp add: evaluate_rt)
qed

text \<open>
  C4. A call after which the machine's window holds fewer than 5 values returns
  \<open>(False, None)\<close>, whatever the temperature is. The bound is the literal 5 of the
  source, not \<open>WINDOW_SIZE\<close>.
\<close>

theorem warm_up_never_anomalous:
  "d = detect_anomaly \<or> d = detect_anomaly_temperature \<and> st m \<noteq> None \<Longrightarrow>
   \<exists>st' r. d st m v t = Inr (st', r) \<and>
     (length (window st' m) < 5 \<longrightarrow> r = (False, None))"
  by (simp add: either_program window_upd_same verdict_def)

theorem warm_up_never_anomalous_witness:
  "machine_temp_data_init ''Lathe_01'' \<noteq> None \<and>
   TEMP_THRESHOLD < 1000 \<and>
   length (window (machine_temp_data_init(''Lathe_01'' \<mapsto> [1000])) ''Lathe_01'') < 5 \<and>
   detect_anomaly machine_temp_data_init ''Lathe_01'' 1000 0 =
     Inr (machine_temp_data_init(''Lathe_01'' \<mapsto> [1000]), False, None) \<and>
   detect_anomaly_temperature machine_temp_data_init ''Lathe_01'' 1000 0 =
     Inr (machine_temp_data_init(''Lathe_01'' \<mapsto> [1000]), False, None)"
  using
    warm_up_never_anomalous [of detect_anomaly machine_temp_data_init "''Lathe_01''" 1000 0]
    warm_up_never_anomalous
      [of detect_anomaly_temperature machine_temp_data_init "''Lathe_01''" 1000 0]
  by (simp add: evaluate)

text \<open>
  C5. Over any run, from a history in which the machine's window holds at most
  \<open>WINDOW_SIZE\<close> values (every deque built with that \<open>maxlen\<close> does), the window
  never holds more than \<open>WINDOW_SIZE\<close> values, and it is the last \<open>WINDOW_SIZE\<close>
  values of the old window followed by the machine's temperatures of the run, in
  arrival order: the oldest values are the ones dropped.
\<close>

theorem window_bounded_fifo:
  "run = feed \<or> run = feed_temperature \<and> (\<forall>r\<in>set rs. st (fst r) \<noteq> None) \<Longrightarrow>
   length (window st m) \<le> WINDOW_SIZE \<Longrightarrow>
   \<exists>st' out. run st rs = Inr (st', out) \<and>
     length (window st' m) \<le> WINDOW_SIZE \<and>
     window st' m = last_n WINDOW_SIZE (window st m @ values_of m rs)"
proof -
  assume r: "run = feed \<or> run = feed_temperature \<and> (\<forall>r\<in>set rs. st (fst r) \<noteq> None)"
    and len: "length (window st m) \<le> WINDOW_SIZE"
  obtain st' out where f: "feed st rs = Inr (st', out)"
    using feed_returns [of st rs] by blast
  have "window st' m = foldl (deque_append WINDOW_SIZE) (window st m) (values_of m rs)"
    using f by (rule feed_window)
  also have "\<dots> = last_n WINDOW_SIZE (window st m @ values_of m rs)"
    using len by (intro foldl_deque_append) (simp_all add: WINDOW_SIZE_def)
  finally have w: "window st' m = last_n WINDOW_SIZE (window st m @ values_of m rs)" .
  then have "length (window st' m) \<le> WINDOW_SIZE" by (simp add: length_last_n)
  with w f show ?thesis
    unfolding either_run [of run rs st, OF r] by simp
qed

theorem window_bounded_fifo_witness:
  "length (window machine_temp_data_init ''Lathe_01'') \<le> WINDOW_SIZE \<and>
   WINDOW_SIZE < length (values_of ''Lathe_01'' example_long_run) \<and>
   (\<exists>st' out. feed machine_temp_data_init example_long_run = Inr (st', out) \<and>
      window st' ''Lathe_01'' = [3, 4, 5, 6, 7, 8, 9, 10, 11, 12]) \<and>
   (\<exists>st' out. feed_temperature machine_temp_data_init example_long_run = Inr (st', out) \<and>
      window st' ''Lathe_01'' = [3, 4, 5, 6, 7, 8, 9, 10, 11, 12])"
proof -
  have k: "\<forall>r\<in>set example_long_run. machine_temp_data_init (fst r) \<noteq> None"
    by (simp add: example_long_run_def machine_temp_data_init_def MACHINES_def)
  have l: "length (window machine_temp_data_init ''Lathe_01'') \<le> WINDOW_SIZE"
    by (simp add: window_def machine_temp_data_init_def MACHINES_def)
  have v: "values_of ''Lathe_01'' example_long_run = [1, 2, 3, 4, 5, 6, 7, 8, 9, 10, 11, 12]"
    by (simp add: values_of_def example_long_run_def)
  have e: "last_n WINDOW_SIZE
      (window machine_temp_data_init ''Lathe_01'' @ values_of ''Lathe_01'' example_long_run) =
      [3, 4, 5, 6, 7, 8, 9, 10, 11, 12]"
    unfolding v by (simp add: last_n_def WINDOW_SIZE_def window_def machine_temp_data_init_def
        MACHINES_def)
  have "WINDOW_SIZE < length (values_of ''Lathe_01'' example_long_run)"
    unfolding v by (simp add: WINDOW_SIZE_def)
  then show ?thesis
    using l
      window_bounded_fifo
        [of feed example_long_run machine_temp_data_init "''Lathe_01''", unfolded e]
      window_bounded_fifo
        [of feed_temperature example_long_run machine_temp_data_init "''Lathe_01''", unfolded e]
      k
    by blast
qed



text \<open>
  C7. Every alert that \<^verbatim>\<open>process_simulation_output\<close> prints has exactly the six
  fields type, machine, temperature, z\_score, reason and timestamp, with the type
  TEMP\_ANOMALY, the machine id and the temperature of the line and the time of the
  call. The cycle id, which is merged into the dictionary handed to
  \<^verbatim>\<open>generate_alert\<close>, is not a key of the alert: \<^verbatim>\<open>generate_alert\<close> copies six
  fixed keys and no other.
\<close>

theorem alert_omits_cycle_id:
  "process_simulation_output st (Some data) now = Inr (st', Some alert) \<Longrightarrow>
   (\<exists>m v z r.
      sim_spindle_temp data = Some v \<and>
      m = (case sim_machine data of None \<Rightarrow> ''CNC_Mill_1'' | Some x \<Rightarrow> x) \<and>
      alert = [(''type'', PStr ''TEMP_ANOMALY''), (''machine'', PStr m),
               (''temperature'', PNum v), (''z_score'', PNum z),
               (''reason'', PStr r), (''timestamp'', PNum now)]) \<and>
   map_of alert ''cycle_id'' = None"
proof -
  assume a: "process_simulation_output st (Some data) now = Inr (st', Some alert)"
  then obtain v where v: "sim_spindle_temp data = Some v"
    by (cases "sim_spindle_temp data") (simp_all add: process_simulation_output_def)
  define m where "m = (case sim_machine data of None \<Rightarrow> ''CNC_Mill_1'' | Some x \<Rightarrow> x)"
  define w where "w = appended st m v"
  have "alert = [(''type'', PStr ''TEMP_ANOMALY''), (''machine'', PStr m),
               (''temperature'', PNum v),
               (''z_score'', PNum (py_round ((v - arith_mean w) / sample_stdev w) 2)),
               (''reason'', PStr (if v > TEMP_THRESHOLD then ''HIGH_TEMP'' else ''Z_SCORE_SPIKE'')),
               (''timestamp'', PNum now)]"
    using a v
    by (auto simp: process_simulation_output_def detect_anomaly_eq verdict_def m_def [symmetric]
        w_def [symmetric] generate_alert_finding split: if_splits)
  then show ?thesis using v by (simp add: m_def)
qed

theorem alert_omits_cycle_id_witness:
  "main Map.empty example_lines =
     Inr ([''CNC_Mill_1'' \<mapsto> [70, 70, 70, 70, 70, 70, 70, 70, 79]], [example_alert]) \<and>
   process_simulation_output [''CNC_Mill_1'' \<mapsto> [70, 70, 70, 70, 70, 70, 70, 70]]
       (example_line 79 9) 9 =
     Inr ([''CNC_Mill_1'' \<mapsto> [70, 70, 70, 70, 70, 70, 70, 70, 79]], Some example_alert) \<and>
   map fst example_alert =
     [''type'', ''machine'', ''temperature'', ''z_score'', ''reason'', ''timestamp''] \<and>
   map_of example_alert ''cycle_id'' = None"
proof -
  have p: "process_simulation_output [''CNC_Mill_1'' \<mapsto> [70, 70, 70, 70, 70, 70, 70, 70]]
       (example_line 79 9) 9 =
     Inr ([''CNC_Mill_1'' \<mapsto> [70, 70, 70, 70, 70, 70, 70, 70, 79]], Some example_alert)"
    by (simp add: example_line_def example_alert_def process_simulation_output_def
        generate_alert_def dict_get_def evaluate)
  have q: "main Map.empty example_lines =
     Inr ([''CNC_Mill_1'' \<mapsto> [70, 70, 70, 70, 70, 70, 70, 70, 79]], [example_alert])"
    by (simp add: example_lines_def example_line_def example_alert_def
        process_simulation_output_def generate_alert_def dict_get_def evaluate)
  from alert_omits_cycle_id [OF p [unfolded example_line_def]] p q show ?thesis
    by (simp add: example_alert_def)
qed

text \<open>
  C8. A reading that is not above \<open>TEMP_THRESHOLD\<close> and whose z-score is negative is
  not anomalous, however far below the mean it lies: only a z-score above
  \<open>Z_SCORE_LIMIT\<close> counts, its absolute value is never taken.
\<close>

theorem cold_reading_never_anomalous:
  "d = detect_anomaly \<or> d = detect_anomaly_temperature \<and> st m \<noteq> None \<Longrightarrow>
   \<exists>st' r. d st m v t = Inr (st', r) \<and>
     (v \<le> TEMP_THRESHOLD \<and>
      (v - arith_mean (window st' m)) / sample_stdev (window st' m) < 0 \<longrightarrow>
        r = (False, None))"
proof -
  assume d: "d = detect_anomaly \<or> d = detect_anomaly_temperature \<and> st m \<noteq> None"
  define w where "w = appended st m v"
  define z where "z = (v - arith_mean w) / sample_stdev w"
  have "verdict m w v t = (False, None)" if "v \<le> TEMP_THRESHOLD" "z < 0"
  proof -
    from that(2) have "\<not> Z_SCORE_LIMIT < z" by (simp add: Z_SCORE_LIMIT_def)
    with that(1) show ?thesis unfolding verdict_def z_def by auto
  qed
  then show ?thesis
    unfolding z_def w_def by (simp add: either_program [of d st m, OF d] window_upd_same)
qed

theorem cold_reading_never_anomalous_witness:
  "[''Lathe_01'' \<mapsto> [60, 60, 60, 60, 60, 60, 60, 60]] ''Lathe_01'' \<noteq> None \<and>
   51 \<le> TEMP_THRESHOLD \<and>
   (51 - arith_mean (window [''Lathe_01'' \<mapsto> [60, 60, 60, 60, 60, 60, 60, 60, 51]] ''Lathe_01''))
     / sample_stdev (window [''Lathe_01'' \<mapsto> [60, 60, 60, 60, 60, 60, 60, 60, 51]] ''Lathe_01'')
     = - (8 / 3) \<and>
   Z_SCORE_LIMIT < \<bar>- (8 / 3)\<bar> \<and>
   detect_anomaly [''Lathe_01'' \<mapsto> [60, 60, 60, 60, 60, 60, 60, 60]] ''Lathe_01'' 51 0 =
     Inr ([''Lathe_01'' \<mapsto> [60, 60, 60, 60, 60, 60, 60, 60, 51]], False, None) \<and>
   detect_anomaly_temperature
       [''Lathe_01'' \<mapsto> [60, 60, 60, 60, 60, 60, 60, 60]] ''Lathe_01'' 51 0 =
     Inr ([''Lathe_01'' \<mapsto> [60, 60, 60, 60, 60, 60, 60, 60, 51]], False, None)"
  using
    cold_reading_never_anomalous
      [of detect_anomaly "[''Lathe_01'' \<mapsto> [60, 60, 60, 60, 60, 60, 60, 60]]"
          "''Lathe_01''" 51 0]
    cold_reading_never_anomalous
      [of detect_anomaly_temperature "[''Lathe_01'' \<mapsto> [60, 60, 60, 60, 60, 60, 60, 60]]"
          "''Lathe_01''" 51 0]
  by (simp add: evaluate)

text \<open>
  C9. A call changes the window of its own machine only: the entry of every other
  machine in the history is the same after the call. And a machine's results in a run
  in which machines are interleaved are the results of its readings run alone, from
  the same history, as is its final window.
\<close>

theorem sources_independent:
  "(d, run) = (detect_anomaly, feed) \<or>
   (d, run) = (detect_anomaly_temperature, feed_temperature) \<and>
     st m \<noteq> None \<and> (\<forall>r\<in>set rs. st (fst r) \<noteq> None) \<Longrightarrow>
   (\<exists>st' r. d st m v t = Inr (st', r) \<and> (\<forall>m'. m' \<noteq> m \<longrightarrow> st' m' = st m')) \<and>
   (\<exists>st1 out1 st2 out2.
      run st rs = Inr (st1, out1) \<and> run st (readings_of m rs) = Inr (st2, out2) \<and>
      out2 = results_of m rs out1 \<and> window st2 m = window st1 m)"
proof -
  assume a: "(d, run) = (detect_anomaly, feed) \<or>
   (d, run) = (detect_anomaly_temperature, feed_temperature) \<and>
     st m \<noteq> None \<and> (\<forall>r\<in>set rs. st (fst r) \<noteq> None)"
  then have d: "d = detect_anomaly \<or> d = detect_anomaly_temperature \<and> st m \<noteq> None"
    by auto
  from a have r1: "run = feed \<or> run = feed_temperature \<and> (\<forall>r\<in>set rs. st (fst r) \<noteq> None)"
    by auto
  from a have r2: "run = feed \<or>
      run = feed_temperature \<and> (\<forall>r\<in>set (readings_of m rs). st (fst r) \<noteq> None)"
    by (auto simp: readings_of_def)
  obtain st1 out1 where f1: "feed st rs = Inr (st1, out1)"
    using feed_returns [of st rs] by blast
  obtain st2 out2 where f2: "feed st (readings_of m rs) = Inr (st2, out2)"
    using feed_returns [of st "readings_of m rs"] by blast
  have "out2 = results_of m rs out1 \<and> window st2 m = window st1 m"
    using f1 f2 by (rule feed_alone) simp
  then have "\<exists>st1 out1 st2 out2.
      run st rs = Inr (st1, out1) \<and> run st (readings_of m rs) = Inr (st2, out2) \<and>
      out2 = results_of m rs out1 \<and> window st2 m = window st1 m"
    unfolding either_run [of run rs st, OF r1] either_run [of run "readings_of m rs" st, OF r2]
    using f1 f2 by simp
  then show ?thesis
    by (simp add: either_program [of d st m, OF d])
qed

theorem sources_independent_witness:
  "machine_temp_data_init ''Lathe_01'' \<noteq> None \<and>
   set (map fst example_run) \<subseteq> dom machine_temp_data_init \<and>
   (\<exists>st'. detect_anomaly_temperature machine_temp_data_init ''Lathe_01'' 79 0 =
            Inr (st', False, None) \<and>
          st' ''Drill_03'' = machine_temp_data_init ''Drill_03'') \<and>
   (\<exists>st1 st2.
      feed_temperature machine_temp_data_init example_run =
        Inr (st1,
          [(False, None), (False, None), (False, None), (False, None), (False, None),
           (False, None), (False, None), (False, None), (False, None), (False, None),
           (True, Some [(''machine_id'', PStr ''Lathe_01''), (''temperature'', PNum 79),
                        (''z_score'', PNum (267 / 100)), (''mean_temp'', PNum 71),
                        (''anomaly_reason'', PStr ''HIGH_TEMP''), (''timestamp'', PNum 11)])]) \<and>
      feed_temperature machine_temp_data_init (readings_of ''Lathe_01'' example_run) =
        Inr (st2,
          [(False, None), (False, None), (False, None), (False, None), (False, None),
           (False, None), (False, None), (False, None),
           (True, Some [(''machine_id'', PStr ''Lathe_01''), (''temperature'', PNum 79),
                        (''z_score'', PNum (267 / 100)), (''mean_temp'', PNum 71),
                        (''anomaly_reason'', PStr ''HIGH_TEMP''), (''timestamp'', PNum 11)])]) \<and>
      window st1 ''Lathe_01'' = [70, 70, 70, 70, 70, 70, 70, 70, 79] \<and>
      window st2 ''Lathe_01'' = [70, 70, 70, 70, 70, 70, 70, 70, 79] \<and>
      window st1 ''Drill_03'' = [10, 90] \<and>
      window st2 ''Drill_03'' = []) \<and>
   (\<exists>st1 out1 st2.
      feed Map.empty example_run = Inr (st1, out1) \<and>
      feed Map.empty (readings_of ''Lathe_01'' example_run) =
        Inr (st2, results_of ''Lathe_01'' example_run out1))"
proof -
  have k: "\<forall>r\<in>set example_run. machine_temp_data_init (fst r) \<noteq> None"
    by (simp add: example_run_def machine_temp_data_init_def MACHINES_def)
  then have s: "set (map fst example_run) \<subseteq> dom machine_temp_data_init" by auto
  have l: "machine_temp_data_init ''Lathe_01'' \<noteq> None"
    by (simp add: machine_temp_data_init_def MACHINES_def)
  have "\<exists>st1 out1 st2.
      feed Map.empty example_run = Inr (st1, out1) \<and>
      feed Map.empty (readings_of ''Lathe_01'' example_run) =
        Inr (st2, results_of ''Lathe_01'' example_run out1)"
    using sources_independent [of detect_anomaly feed Map.empty "''Lathe_01''" example_run 79 0]
    by auto
  moreover have "\<exists>st'. detect_anomaly_temperature machine_temp_data_init ''Lathe_01'' 79 0 =
            Inr (st', False, None) \<and>
          st' ''Drill_03'' = machine_temp_data_init ''Drill_03''"
    using sources_independent
      [of detect_anomaly_temperature feed_temperature machine_temp_data_init "''Lathe_01''"
          example_run 79 0] k l
    by (simp add: evaluate)
  ultimately show ?thesis
    using s l by (simp add: evaluate example_run_def readings_of_def)
qed

text \<open>
  C10. Two calls on windows with the same contents and with the same temperature, of
  either program, for any two machines, histories and clock values, return the same
  boolean and findings that agree on temperature, z\_score, mean\_temp and
  anomaly\_reason (or no finding both), and leave the same window.
\<close>

theorem verdict_deterministic:
  "d1 = detect_anomaly \<or> d1 = detect_anomaly_temperature \<and> st1 m1 \<noteq> None \<Longrightarrow>
   d2 = detect_anomaly \<or> d2 = detect_anomaly_temperature \<and> st2 m2 \<noteq> None \<Longrightarrow>
   window st1 m1 = window st2 m2 \<Longrightarrow>
   \<exists>st1' st2' b f1 f2.
     d1 st1 m1 v t1 = Inr (st1', b, f1) \<and> d2 st2 m2 v t2 = Inr (st2', b, f2) \<and>
     map_option verdict_fields f1 = map_option verdict_fields f2 \<and>
     window st1' m1 = window st2' m2"
proof -
  assume d1: "d1 = detect_anomaly \<or> d1 = detect_anomaly_temperature \<and> st1 m1 \<noteq> None"
    and d2: "d2 = detect_anomaly \<or> d2 = detect_anomaly_temperature \<and> st2 m2 \<noteq> None"
    and w: "window st1 m1 = window st2 m2"
  define a where "a = appended st2 m2 v"
  have a: "appended st1 m1 v = a" using w by (simp add: appended_def a_def)
  have b: "fst (verdict m1 a v t1) = fst (verdict m2 a v t2)"
    by (simp add: verdict_def)
  have f: "map_option verdict_fields (snd (verdict m1 a v t1)) =
      map_option verdict_fields (snd (verdict m2 a v t2))"
    by (simp add: verdict_def verdict_fields_def finding_def)
  obtain b f1 where v1: "verdict m1 a v t1 = (b, f1)" by (cases "verdict m1 a v t1")
  obtain b' f2 where v2: "verdict m2 a v t2 = (b', f2)" by (cases "verdict m2 a v t2")
  have bb: "b' = b" using b v1 v2 by simp
  have ff: "map_option verdict_fields f1 = map_option verdict_fields f2"
    using f v1 v2 by simp
  have e1: "d1 st1 m1 v t1 = Inr (st1(m1 \<mapsto> a), b, f1)"
    using either_program [of d1 st1 m1 v t1, OF d1] a v1 by simp
  have e2: "d2 st2 m2 v t2 = Inr (st2(m2 \<mapsto> a), b, f2)"
    using either_program [of d2 st2 m2 v t2, OF d2] v2 bb by (simp add: a_def)
  have ww: "window (st1(m1 \<mapsto> a)) m1 = window (st2(m2 \<mapsto> a)) m2"
    by (simp add: window_upd_same)
  from e1 e2 ff ww show ?thesis by blast
qed

theorem verdict_deterministic_witness:
  "[''Drill_03'' \<mapsto> [70, 70, 70, 70, 70, 70, 70, 70], ''Lathe_01'' \<mapsto> [1, 2]] ''Drill_03''
     \<noteq> None \<and>
   window [''Lathe_01'' \<mapsto> [70, 70, 70, 70, 70, 70, 70, 70]] ''Lathe_01'' =
   window [''Drill_03'' \<mapsto> [70, 70, 70, 70, 70, 70, 70, 70], ''Lathe_01'' \<mapsto> [1, 2]]
     ''Drill_03'' \<and>
   (\<exists>st1' st2'.
      detect_anomaly [''Lathe_01'' \<mapsto> [70, 70, 70, 70, 70, 70, 70, 70]] ''Lathe_01'' 79 1000 =
        Inr (st1', True,
          Some [(''machine_id'', PStr ''Lathe_01''), (''temperature'', PNum 79),
                (''z_score'', PNum (267 / 100)), (''mean_temp'', PNum 71),
                (''anomaly_reason'', PStr ''HIGH_TEMP''), (''timestamp'', PNum 1000)]) \<and>
      detect_anomaly_temperature
          [''Drill_03'' \<mapsto> [70, 70, 70, 70, 70, 70, 70, 70], ''Lathe_01'' \<mapsto> [1, 2]]
          ''Drill_03'' 79 2000 =
        Inr (st2', True,
          Some [(''machine_id'', PStr ''Drill_03''), (''temperature'', PNum 79),
                (''z_score'', PNum (267 / 100)), (''mean_temp'', PNum 71),
                (''anomaly_reason'', PStr ''HIGH_TEMP''), (''timestamp'', PNum 2000)]) \<and>
      window st1' ''Lathe_01'' = window st2' ''Drill_03'') \<and>
   verdict_fields
     [(''machine_id'', PStr ''Lathe_01''), (''temperature'', PNum 79),
      (''z_score'', PNum (267 / 100)), (''mean_temp'', PNum 71),
      (''anomaly_reason'', PStr ''HIGH_TEMP''), (''timestamp'', PNum 1000)] =
   verdict_fields
     [(''machine_id'', PStr ''Drill_03''), (''temperature'', PNum 79),
      (''z_score'', PNum (267 / 100)), (''mean_temp'', PNum 71),
      (''anomaly_reason'', PStr ''HIGH_TEMP''), (''timestamp'', PNum 2000)]"
  using
    verdict_deterministic
      [of detect_anomaly "[''Lathe_01'' \<mapsto> [70, 70, 70, 70, 70, 70, 70, 70]]" "''Lathe_01''"
          detect_anomaly_temperature
          "[''Drill_03'' \<mapsto> [70, 70, 70, 70, 70, 70, 70, 70], ''Lathe_01'' \<mapsto> [1, 2]]"
          "''Drill_03''" 79 1000 2000]
  by (simp add: evaluate verdict_fields_def)

end
